theory Spec2Isabelle
  imports Complex_Main "HOL-Library.Sublist"
begin

section \<open>XRF schema package: the entity builder, the merge and the normalize entry point\<close>

text \<open>
  The development embeds \<^verbatim>\<open>XRFschema.py\<close>: the methods \<^verbatim>\<open>get_read_function\<close>,
  \<^verbatim>\<open>write_xrf_data\<close> and \<^verbatim>\<open>normalize\<close> of \<^verbatim>\<open>ELNXRayFluorescence\<close> and the
  \<^verbatim>\<open>normalize\<close> of its base class \<^verbatim>\<open>XRayFluorescence\<close>.
\<close>

subsection \<open>Python values and attribute access\<close>

text \<open>
  The raw measurement dictionary is typed \<^verbatim>\<open>dict[str, Any]\<close>; the code reaches into it with
  \<^verbatim>\<open>.get\<close>, \<^verbatim>\<open>.items()\<close> and \<^verbatim>\<open>.values()\<close>. A Python value is modelled by the
  shapes the reader hands over: \<^verbatim>\<open>None\<close>, floats, strings, lists and dictionaries with string
  keys. A dictionary is an association list in insertion order, which is the order in which
  Python iterates over it. Floats are only ever copied, never computed with, so they are
  carried as reals.
\<close>

datatype pyval =
    PNone
  | PFloat real
  | PStr string
  | PList "pyval list"
  | PDict "(string \<times> pyval) list"

text \<open>
  Exceptions: \<^verbatim>\<open>AttributeError\<close> is what Python raises when \<^verbatim>\<open>.get\<close>, \<^verbatim>\<open>.items\<close>,
  \<^verbatim>\<open>.values\<close> or \<^verbatim>\<open>.endswith\<close> is looked up on an object that has no such attribute;
  \<open>Raised msg\<close> stands for any other exception a collaborator raises.
\<close>

datatype exn = AttributeError | Raised string

definition bindE :: "exn + 'a \<Rightarrow> ('a \<Rightarrow> exn + 'b) \<Rightarrow> exn + 'b" where
  "bindE m f = (case m of Inl e \<Rightarrow> Inl e | Inr x \<Rightarrow> f x)"

text \<open>\<^verbatim>\<open>d.get(key, default)\<close>: only dictionaries have \<^verbatim>\<open>get\<close>.\<close>

fun py_get :: "pyval \<Rightarrow> string \<Rightarrow> pyval \<Rightarrow> exn + pyval" where
  "py_get (PDict d) key dflt = Inr (case map_of d key of Some v \<Rightarrow> v | None \<Rightarrow> dflt)"
| "py_get PNone key dflt = Inl AttributeError"
| "py_get (PFloat x) key dflt = Inl AttributeError"
| "py_get (PStr s) key dflt = Inl AttributeError"
| "py_get (PList xs) key dflt = Inl AttributeError"

text \<open>\<^verbatim>\<open>d.items()\<close>: only dictionaries have \<^verbatim>\<open>items\<close>; a list has none.\<close>

fun py_items :: "pyval \<Rightarrow> exn + (string \<times> pyval) list" where
  "py_items (PDict d) = Inr d"
| "py_items PNone = Inl AttributeError"
| "py_items (PFloat x) = Inl AttributeError"
| "py_items (PStr s) = Inl AttributeError"
| "py_items (PList xs) = Inl AttributeError"

text \<open>\<^verbatim>\<open>d.values()\<close>.\<close>

fun py_values :: "pyval \<Rightarrow> exn + pyval list" where
  "py_values (PDict d) = Inr (map snd d)"
| "py_values PNone = Inl AttributeError"
| "py_values (PFloat x) = Inl AttributeError"
| "py_values (PStr s) = Inl AttributeError"
| "py_values (PList xs) = Inl AttributeError"

text \<open>Truth value of an object, as \<^verbatim>\<open>if xrf_dict:\<close> takes it.\<close>

fun py_truthy :: "pyval \<Rightarrow> bool" where
  "py_truthy PNone = False"
| "py_truthy (PFloat x) = (x \<noteq> 0)"
| "py_truthy (PStr s) = (s \<noteq> [])"
| "py_truthy (PList xs) = (xs \<noteq> [])"
| "py_truthy (PDict d) = (d \<noteq> [])"

text \<open>\<^verbatim>\<open>s.endswith(suffix)\<close> on strings.\<close>

definition endswith :: "string \<Rightarrow> string \<Rightarrow> bool" where
  "endswith s suf = (length suf \<le> length s \<and> drop (length s - length suf) s = suf)"

subsection \<open>The sections of the schema\<close>

text \<open>
  Each section class is a record of its quantities and sub-sections. A quantity holds a
  Python value, \<open>PNone\<close> when unset; what is stored when a constructor assigns a quantity is
  \<open>set_quantity\<close> below. The layer name is a dictionary key, hence a string.
\<close>

record XRFElementalComposition =
  element :: pyval
  mass_fraction :: pyval
  atomic_fraction :: pyval
  line :: pyval
  intensity_peak :: pyval
  intensity_background :: pyval
  intensity_background_2 :: pyval

record XRFLayer =
  name :: string
  thickness :: pyval
  elements :: "XRFElementalComposition list"

record XRFResult =
  name :: pyval
  date :: pyval
  layer :: "XRFLayer list"

record XRFSettings =
  xray_energy :: pyval
  current :: pyval
  spot_size :: pyval
  integration_time :: pyval
  element_line :: pyval

text \<open>\<^verbatim>\<open>XRFSettings()\<close>: the constructor without arguments leaves every quantity unset.\<close>

definition XRFSettings_init :: XRFSettings where
  "XRFSettings_init =
     \<lparr>xray_energy = PNone, current = PNone, spot_size = PNone,
      integration_time = PNone, element_line = PNone\<rparr>"

text \<open>
  The class \<^verbatim>\<open>CompositeSystemReference\<close> of the framework's base sections: an identifier
  \<^verbatim>\<open>lab_id\<close> and a reference that its normalize hook derives from the identifier. The field
  \<open>oid\<close> is the identity of the object: every object constructed in a run has its own.
\<close>

record CompositeSystemReference =
  lab_id :: pyval
  reference :: pyval
  oid :: nat

text \<open>
  Equality of two \<^verbatim>\<open>CompositeSystemReference\<close> objects. Neither this source file nor the
  section classes of the framework define \<^verbatim>\<open>__eq__\<close>, and Python then compares objects by
  identity: two references are equal only when they are the same object, whatever their
  identifiers are.
\<close>

definition CompositeSystemReference_eq ::
  "CompositeSystemReference \<Rightarrow> CompositeSystemReference \<Rightarrow> bool" where
  "CompositeSystemReference_eq a b = (oid a = oid b)"

text \<open>\<^verbatim>\<open>sample in list_of_samples\<close>: some member of the list equals the sample.\<close>

definition sample_in ::
  "CompositeSystemReference \<Rightarrow> CompositeSystemReference list \<Rightarrow> bool" where
  "sample_in sample list_of_samples = list_ex (CompositeSystemReference_eq sample) list_of_samples"

text \<open>
  \<^verbatim>\<open>ELNXRayFluorescence\<close>: the quantity \<^verbatim>\<open>data_file\<close> (a string, or unset), the sub-section
  \<^verbatim>\<open>xrf_settings\<close> and the repeated sub-sections \<^verbatim>\<open>results\<close> and \<^verbatim>\<open>samples\<close>.
\<close>

record ELNXRayFluorescence =
  data_file :: "string option"
  xrf_settings :: "XRFSettings option"
  results :: "XRFResult list"
  samples :: "CompositeSystemReference list"

text \<open>The archive, as far as \<^verbatim>\<open>XRayFluorescence.normalize\<close> touches it.\<close>

datatype Properties = Properties

record Results =
  properties :: "Properties option"

record EntryArchive =
  results :: "Results option"

text \<open>
  The state a call of \<^verbatim>\<open>normalize\<close> works on: the section itself, the archive, and the
  logger. The logger is \<open>None\<close> when the caller passes \<^verbatim>\<open>None\<close>, otherwise the list of the
  warnings it has received so far.
\<close>

record state =
  self :: ELNXRayFluorescence
  archive :: EntryArchive
  logger :: "string list option"

text \<open>
  The declared types of the quantities the builder assigns: \<^verbatim>\<open>np.float64\<close> (the fractions,
  the intensities, the thickness), \<^verbatim>\<open>str\<close> (the line, the names, \<^verbatim>\<open>lab_id\<close>), \<^verbatim>\<open>Datetime\<close>
  (the date) and the enumeration of the chemical symbols (the element).
\<close>

datatype quantity_type = Float64 | Str | Datetime | Element

text \<open>
  The collaborators outside this source file, taken as parameters: the normalize hooks of
  the framework's sections, the file context of the archive (\<^verbatim>\<open>m_context.raw_file\<close>, which
  gives the name of the opened file or raises), the text reader \<^verbatim>\<open>XRFreader.read_xrf_txt\<close>
  (which gives a Python value or raises), \<^verbatim>\<open>Measurement.normalize\<close>, the base class
  normalization, the vocabulary of the chemical symbols, and \<open>coerce\<close>: what the framework
  makes of a value that has not the declared type of the quantity it is assigned to, an
  exception or a converted value.
\<close>

record env =
  sample_normalize :: "EntryArchive \<Rightarrow> CompositeSystemReference \<Rightarrow> CompositeSystemReference"
  result_normalize :: "EntryArchive \<Rightarrow> XRFResult \<Rightarrow> XRFResult"
  settings_normalize :: "EntryArchive \<Rightarrow> XRFSettings \<Rightarrow> XRFSettings"
  raw_file :: "string \<Rightarrow> exn + string"
  read_xrf_txt :: "string \<Rightarrow> exn + pyval"
  measurement_normalize :: "state \<Rightarrow> state"
  chemical_symbols :: "string list"
  coerce :: "quantity_type \<Rightarrow> pyval \<Rightarrow> exn + pyval"

text \<open>
  A value has the declared type of a quantity: a float for \<^verbatim>\<open>np.float64\<close>, a string for
  \<^verbatim>\<open>str\<close>, a string of the vocabulary for the element. No value of \<open>pyval\<close> is a datetime.
\<close>

fun has_type :: "string list \<Rightarrow> quantity_type \<Rightarrow> pyval \<Rightarrow> bool" where
  "has_type symbols Float64 (PFloat x) = True"
| "has_type symbols Str (PStr s) = True"
| "has_type symbols Element (PStr s) = (s \<in> set symbols)"
| "has_type symbols ty v = False"

text \<open>
  Modelled from the spec: the assignment of a value to a quantity, which the metainfo
  framework performs when a section is constructed (the framework is not in this source
  file). \<^verbatim>\<open>None\<close> leaves the quantity unset. A value of the declared type is stored unchanged
  (the spec: passed through unchanged, no unit conversion). Any other value is left to
  \<open>coerce\<close>.
\<close>

definition set_quantity :: "env \<Rightarrow> quantity_type \<Rightarrow> pyval \<Rightarrow> exn + pyval" where
  "set_quantity E ty v =
     (if v = PNone then Inr PNone
      else if has_type (chemical_symbols E) ty v then Inr v
      else coerce E ty v)"

subsection \<open>Reader selection\<close>

datatype reader = Read_xrf_txt

text \<open>
  \<^verbatim>\<open>get_read_function\<close>: \<^verbatim>\<open>self.data_file.endswith('.txt')\<close> raises on an unset
  \<^verbatim>\<open>data_file\<close>; a function that falls off its end returns \<^verbatim>\<open>None\<close>.
\<close>

definition get_read_function :: "ELNXRayFluorescence \<Rightarrow> exn + reader option" where
  "get_read_function slf =
     (case data_file slf of
        None \<Rightarrow> Inl AttributeError
      | Some f \<Rightarrow> if endswith f ''.txt'' then Inr (Some Read_xrf_txt) else Inr None)"

definition call_reader :: "env \<Rightarrow> reader \<Rightarrow> string \<Rightarrow> exn + pyval" where
  "call_reader E r file_name = (case r of Read_xrf_txt \<Rightarrow> read_xrf_txt E file_name)"

subsection \<open>The entity builder\<close>

text \<open>
  The constructor call of lines 285-295: the arguments are evaluated in order, then the
  constructor assigns the quantities in the order of the keywords.
\<close>

definition make_element :: "env \<Rightarrow> string \<Rightarrow> pyval \<Rightarrow> exn + XRFElementalComposition" where
  "make_element E elem attributes =
     bindE (py_get attributes ''mass_fraction'' PNone) (\<lambda>mf.
     bindE (py_get attributes ''atomic_fraction'' PNone) (\<lambda>af.
     bindE (py_get attributes ''line'' PNone) (\<lambda>ln.
     bindE (py_get attributes ''intensity_peak'' PNone) (\<lambda>ip.
     bindE (py_get attributes ''intensity_background'' PNone) (\<lambda>ib.
     bindE (py_get attributes ''intensity_background_2'' PNone) (\<lambda>ib2.
     bindE (set_quantity E Element (PStr elem)) (\<lambda>el'.
     bindE (set_quantity E Float64 mf) (\<lambda>mf'.
     bindE (set_quantity E Float64 af) (\<lambda>af'.
     bindE (set_quantity E Str ln) (\<lambda>ln'.
     bindE (set_quantity E Float64 ip) (\<lambda>ip'.
     bindE (set_quantity E Float64 ib) (\<lambda>ib'.
     bindE (set_quantity E Float64 ib2) (\<lambda>ib2'.
       Inr \<lparr>element = el', mass_fraction = mf', atomic_fraction = af', line = ln',
            intensity_peak = ip', intensity_background = ib',
            intensity_background_2 = ib2'\<rparr>)))))))))))))"

text \<open>The loop over \<^verbatim>\<open>content.get('elements', {}).items()\<close>, appending to the list.\<close>

fun elements_loop ::
  "env \<Rightarrow> (string \<times> pyval) list \<Rightarrow> XRFElementalComposition list \<Rightarrow>
     exn + XRFElementalComposition list"
where
  "elements_loop E [] list_of_ElementalCompositions = Inr list_of_ElementalCompositions"
| "elements_loop E ((elem, attributes) # rest) list_of_ElementalCompositions =
     bindE (make_element E elem attributes) (\<lambda>ec.
       elements_loop E rest (list_of_ElementalCompositions @ [ec]))"

text \<open>
  The loop over \<^verbatim>\<open>data.get('layers', []).items()\<close>. The layer name is the dictionary key, a
  string given to a \<^verbatim>\<open>str\<close> quantity; the thickness is assigned to a \<^verbatim>\<open>np.float64\<close>
  quantity.
\<close>

fun layers_loop ::
  "env \<Rightarrow> (string \<times> pyval) list \<Rightarrow> XRFLayer list \<Rightarrow> exn + XRFLayer list"
where
  "layers_loop E [] list_of_XRFLayers = Inr list_of_XRFLayers"
| "layers_loop E ((layer_key, content) # rest) list_of_XRFLayers =
     bindE (py_get content ''elements'' (PDict [])) (\<lambda>els.
     bindE (py_items els) (\<lambda>element_items.
     bindE (elements_loop E element_items []) (\<lambda>list_of_ElementalCompositions.
     bindE (py_get content ''thickness'' PNone) (\<lambda>th.
     bindE (set_quantity E Float64 th) (\<lambda>th'.
       layers_loop E rest
         (list_of_XRFLayers @
            [\<lparr>XRFLayer.name = layer_key, thickness = th',
              elements = list_of_ElementalCompositions\<rparr>]))))))"

text \<open>
  Lines 280-303 for one measurement: the default for a missing \<^verbatim>\<open>'layers'\<close> key is the
  empty list \<^verbatim>\<open>[]\<close>, on which \<^verbatim>\<open>.items()\<close> is then called.
\<close>

definition build_layers :: "env \<Rightarrow> pyval \<Rightarrow> exn + XRFLayer list" where
  "build_layers E data =
     bindE (py_get data ''layers'' (PList [])) (\<lambda>ls.
     bindE (py_items ls) (\<lambda>layer_items.
       layers_loop E layer_items []))"

text \<open>
  The loop over \<^verbatim>\<open>xrf_dict.values()\<close>, lines 275-320. The number \<open>created\<close> counts the sample
  objects constructed so far and is the identity of the next one; the normalize hook works
  on the object in place and cannot change its identity.
\<close>

fun measurements_loop ::
  "env \<Rightarrow> EntryArchive \<Rightarrow> pyval list \<Rightarrow> nat \<Rightarrow> XRFResult list \<Rightarrow>
     CompositeSystemReference list \<Rightarrow> exn + (XRFResult list \<times> CompositeSystemReference list)"
where
  "measurements_loop E arch [] created list_of_results list_of_samples =
     Inr (list_of_results, list_of_samples)"
| "measurements_loop E arch (data # rest) created list_of_results list_of_samples =
     bindE (py_get data ''application'' PNone) (\<lambda>nm.
     bindE (py_get data ''date'' PNone) (\<lambda>dt.
     bindE (build_layers E data) (\<lambda>list_of_XRFLayers.
     bindE (py_get data ''sample_name'' PNone) (\<lambda>sn.
     bindE (set_quantity E Str sn) (\<lambda>sn'.
       let sample = \<lparr>lab_id = sn', reference = PNone, oid = created\<rparr>;
           list_of_samples' =
             (if \<not> sample_in sample list_of_samples
              then list_of_samples @ [(sample_normalize E arch sample)\<lparr>oid := created\<rparr>]
              else list_of_samples)
       in
     bindE (set_quantity E Str nm) (\<lambda>nm'.
     bindE (set_quantity E Datetime dt) (\<lambda>dt'.
       let result = \<lparr>XRFResult.name = nm', date = dt', layer = list_of_XRFLayers\<rparr>
       in measurements_loop E arch rest (Suc created)
            (list_of_results @ [result_normalize E arch result]) list_of_samples')))))))"

text \<open>
  Lines 270-329: the freshly built section \<^verbatim>\<open>xrf\<close>. The constructor call sets
  \<^verbatim>\<open>results\<close>, \<^verbatim>\<open>xrf_settings\<close> and \<^verbatim>\<open>samples\<close> and leaves \<^verbatim>\<open>data_file\<close> unset.
\<close>

definition build_xrf :: "env \<Rightarrow> pyval \<Rightarrow> EntryArchive \<Rightarrow> exn + ELNXRayFluorescence" where
  "build_xrf E xrf_dict arch =
     bindE (py_values xrf_dict) (\<lambda>vals.
     bindE (measurements_loop E arch vals 0 [] []) (\<lambda>(list_of_results, list_of_samples).
       let settings = settings_normalize E arch XRFSettings_init
       in Inr \<lparr>data_file = None, xrf_settings = Some settings,
               results = list_of_results, samples = list_of_samples\<rparr>))"

subsection \<open>The merge\<close>

text \<open>
  Modelled from the spec: \<^verbatim>\<open>merge_sections\<close> of \<^verbatim>\<open>nomad_measurements.utils\<close> (imported,
  not in this source file). The spec gives its rule per top-level field: a field of
  \<open>current\<close> that already has a non-empty value is kept, otherwise the value of \<open>derived\<close> is
  written; a list-valued field is replaced wholesale when the one of \<open>current\<close> is empty.
\<close>

definition merge_sections :: "ELNXRayFluorescence \<Rightarrow> ELNXRayFluorescence \<Rightarrow> ELNXRayFluorescence"
where
  "merge_sections cur derived =
     \<lparr>data_file = (case data_file cur of Some v \<Rightarrow> Some v | None \<Rightarrow> data_file derived),
      xrf_settings = (case xrf_settings cur of Some v \<Rightarrow> Some v | None \<Rightarrow> xrf_settings derived),
      results =
        (if ELNXRayFluorescence.results cur \<noteq> [] then ELNXRayFluorescence.results cur
         else ELNXRayFluorescence.results derived),
      samples = (if samples cur \<noteq> [] then samples cur else samples derived)\<rparr>"

text \<open>
  \<^verbatim>\<open>write_xrf_data\<close>: the section after the call, and the exception if one was raised. The
  section is only written by the merge in the last line, so an exception leaves it as it was.
\<close>

definition write_xrf_data ::
  "env \<Rightarrow> pyval \<Rightarrow> EntryArchive \<Rightarrow> ELNXRayFluorescence \<Rightarrow> exn option \<times> ELNXRayFluorescence"
where
  "write_xrf_data E xrf_dict arch slf =
     (case build_xrf E xrf_dict arch of
        Inl e \<Rightarrow> (Some e, slf)
      | Inr xrf \<Rightarrow> (None, merge_sections slf xrf))"

subsection \<open>The normalize entry point\<close>

text \<open>\<^verbatim>\<open>if logger is not None: logger.warn(msg)\<close>.\<close>

definition warn :: "string \<Rightarrow> state \<Rightarrow> state" where
  "warn msg st =
     (case logger st of None \<Rightarrow> st | Some msgs \<Rightarrow> st\<lparr>logger := Some (msgs @ [msg])\<rparr>)"

definition no_reader_message :: "string \<Rightarrow> string" where
  "no_reader_message f =
     ''No compatible reader found for the file: '' @ [CHR 0x22] @ f @ [CHR 0x22] @ ''.''"

definition no_data_message :: "string \<Rightarrow> string" where
  "no_data_message f = ''No XRF data found in file: '' @ [CHR 0x22] @ f @ [CHR 0x22] @ ''.''"

text \<open>
  \<^verbatim>\<open>XRayFluorescence.normalize\<close>, lines 202-213: it makes sure the archive has results and
  properties and calls the base class.
\<close>

definition XRayFluorescence_normalize :: "env \<Rightarrow> state \<Rightarrow> state" where
  "XRayFluorescence_normalize E st =
     (let a1 = (case EntryArchive.results (archive st) of
                  None \<Rightarrow> (archive st)\<lparr>EntryArchive.results := Some \<lparr>properties = None\<rparr>\<rparr>
                | Some r \<Rightarrow> archive st);
          a2 = (case EntryArchive.results a1 of
                  None \<Rightarrow> a1
                | Some r \<Rightarrow>
                    (case properties r of
                       None \<Rightarrow> a1\<lparr>EntryArchive.results := Some (r\<lparr>properties := Some Properties\<rparr>)\<rparr>
                     | Some p \<Rightarrow> a1))
      in measurement_normalize E (st\<lparr>archive := a2\<rparr>))"

text \<open>
  \<^verbatim>\<open>ELNXRayFluorescence.normalize\<close>, lines 341-357: the state after the call and the
  exception if one was raised. No statement of the method is inside a \<^verbatim>\<open>try\<close>, so an
  exception leaves the method where it is raised. The final
  \<^verbatim>\<open>if not self.results: return\<close> changes nothing.
\<close>

definition normalize :: "env \<Rightarrow> state \<Rightarrow> exn option \<times> state" where
  "normalize E st =
     (case data_file (self st) of
        None \<Rightarrow> (None, XRayFluorescence_normalize E st)
      | Some f \<Rightarrow>
          (case get_read_function (self st) of
             Inl e \<Rightarrow> (Some e, st)
           | Inr None \<Rightarrow> (None, XRayFluorescence_normalize E (warn (no_reader_message f) st))
           | Inr (Some read_function) \<Rightarrow>
               (case raw_file E f of
                  Inl e \<Rightarrow> (Some e, st)
                | Inr file_name \<Rightarrow>
                    (case call_reader E read_function file_name of
                       Inl e \<Rightarrow> (Some e, st)
                     | Inr xrf_dict \<Rightarrow>
                         if py_truthy xrf_dict
                         then (case write_xrf_data E xrf_dict (archive st) (self st) of
                                 (Some e, slf') \<Rightarrow> (Some e, st\<lparr>self := slf'\<rparr>)
                               | (None, slf') \<Rightarrow>
                                   (None, XRayFluorescence_normalize E (st\<lparr>self := slf'\<rparr>)))
                         else (None,
                               XRayFluorescence_normalize E (warn (no_data_message f) st))))))"

subsection \<open>Reading the raw dictionary in statements\<close>


fun dict_items :: "pyval \<Rightarrow> (string \<times> pyval) list" where
  "dict_items (PDict d) = d"
| "dict_items PNone = []"
| "dict_items (PFloat x) = []"
| "dict_items (PStr s) = []"
| "dict_items (PList xs) = []"

text \<open>The value stored under a key, \<open>PNone\<close> when the key is missing or the value is no dictionary.\<close>

definition field :: "pyval \<Rightarrow> string \<Rightarrow> pyval" where
  "field v key = (case map_of (dict_items v) key of Some x \<Rightarrow> x | None \<Rightarrow> PNone)"









text \<open>
  The distinct members of a list in the order of their first occurrence: \<open>remdups\<close> keeps the
  last occurrence of each member, so the list is reversed before and after.
\<close>

definition first_occurrences :: "'a list \<Rightarrow> 'a list" where
  "first_occurrences xs = rev (remdups (rev xs))"

text \<open>The value each measurement entry gives as \<^verbatim>\<open>data.get('sample_name', None)\<close>.\<close>

definition sample_names :: "pyval list \<Rightarrow> pyval list" where
  "sample_names vals = map (\<lambda>data. field data ''sample_name'') vals"

text \<open>
  The count in the words of the specification: the distinct non-empty \<^verbatim>\<open>sample_name\<close>
  values, in first-occurrence order. A value is non-empty when it is neither missing nor the
  empty string.
\<close>

definition distinct_nonempty_sample_names :: "pyval list \<Rightarrow> pyval list" where
  "distinct_nonempty_sample_names vals = first_occurrences (filter py_truthy (sample_names vals))"

subsection \<open>Concrete collaborators and inputs\<close>

text \<open>
  Collaborators that do as little as possible: the hooks leave the section as it is, the file
  context hands the name back, the reader finds no data (an empty dictionary), the
  vocabulary has a few symbols and a value of another type than declared is refused.
\<close>

definition plain_env :: env where
  "plain_env =
     \<lparr>sample_normalize = (\<lambda>arch s. s), result_normalize = (\<lambda>arch r. r),
      settings_normalize = (\<lambda>arch s. s), raw_file = (\<lambda>f. Inr f),
      read_xrf_txt = (\<lambda>file_name. Inr (PDict [])), measurement_normalize = (\<lambda>st. st),
      chemical_symbols = [''H'', ''C'', ''O'', ''Al'', ''Si'', ''Fe'', ''Cu'', ''Zn''],
      coerce = (\<lambda>ty v. Inl (Raised ''ValueError''))\<rparr>"

text \<open>The same collaborators with a reader that raises while parsing.\<close>

definition raising_env :: env where
  "raising_env = plain_env\<lparr>read_xrf_txt := (\<lambda>file_name. Inl (Raised ''unreadable''))\<rparr>"

text \<open>The measurement entry of Scenario B of the specification.\<close>

definition scenario_B_entry :: "(string \<times> pyval) list" where
  "scenario_B_entry =
     [(''application'', PStr ''coating check''), (''sample_name'', PStr ''S1''),
      (''layers'', PDict [(''L1'', PDict [(''thickness'', PFloat 50),
         (''elements'', PDict [(''Fe'', PDict [(''mass_fraction'', PFloat 0.8),
                                               (''line'', PStr ''Ka1'')])])])])]"

section \<open>Properties\<close>

subsection \<open>Basic facts\<close>

lemma bindE_Inr [simp]: "bindE (Inr x) f = f x"
  by (simp add: bindE_def)

lemma bindE_Inl [simp]: "bindE (Inl e) f = Inl e"
  by (simp add: bindE_def)

text \<open>\<open>endswith\<close> is the suffix relation of the list library, read the other way round.\<close>

lemma endswith_suffix: "endswith s suf \<longleftrightarrow> suffix suf s"
proof
  assume "endswith s suf"
  then have "s = take (length s - length suf) s @ suf"
    by (metis append_take_drop_id endswith_def)
  then show "suffix suf s"
    by (metis suffixI)
next
  assume "suffix suf s"
  then obtain zs where "s = zs @ suf"
    by (auto simp: suffix_def)
  then show "endswith s suf"
    by (simp add: endswith_def)
qed

subsection \<open>Reader selection\<close>

text \<open>
  C5. For a set \<^verbatim>\<open>data_file\<close>, \<^verbatim>\<open>get_read_function\<close> returns the text reader exactly when
  the file name ends with \<^verbatim>\<open>.txt\<close>; for every other name it returns \<^verbatim>\<open>None\<close>, and it does
  not raise.
\<close>

theorem get_read_function_txt_iff:
  assumes "data_file slf = Some f"
  shows "(get_read_function slf = Inr (Some Read_xrf_txt) \<longleftrightarrow> suffix ''.txt'' f)
       \<and> (\<not> suffix ''.txt'' f \<longrightarrow> get_read_function slf = Inr None)"
  using assms by (simp add: get_read_function_def endswith_suffix)

theorem get_read_function_txt_iff_witness:
  "data_file \<lparr>data_file = Some ''run.txt'', xrf_settings = None, results = [], samples = []\<rparr>
     = Some ''run.txt''
   \<and> suffix ''.txt'' ''run.txt''
   \<and> get_read_function
        \<lparr>data_file = Some ''run.txt'', xrf_settings = None, results = [], samples = []\<rparr>
      = Inr (Some Read_xrf_txt)
   \<and> \<not> suffix ''.txt'' ''run.csv''
   \<and> get_read_function
        \<lparr>data_file = Some ''run.csv'', xrf_settings = None, results = [], samples = []\<rparr>
      = Inr None"
proof -
  have s1: "suffix ''.txt'' ''run.txt''"
    by (simp add: suffix_def)
  have s2: "\<not> suffix ''.txt'' ''run.csv''"
    by (simp add: suffix_to_prefix)
  show ?thesis
    using s1 s2
      get_read_function_txt_iff
        [of "\<lparr>data_file = Some ''run.txt'', xrf_settings = None, results = [], samples = []\<rparr>"
            "''run.txt''"]
      get_read_function_txt_iff
        [of "\<lparr>data_file = Some ''run.csv'', xrf_settings = None, results = [], samples = []\<rparr>"
            "''run.csv''"]
    by simp
qed

subsection \<open>Quantities and dictionaries\<close>





subsection \<open>The layer and element loops\<close>






subsection \<open>The loop over the measurements\<close>





subsection \<open>The built section\<close>


text \<open>
  Whenever the builder returns, the section it built has no \<^verbatim>\<open>data_file\<close>, and its settings
  are the normalized empty settings, whatever the raw dictionary holds.
\<close>

lemma build_xrf_derived:
  assumes "build_xrf E xrf_dict arch = Inr xrf"
  shows "data_file xrf = None"
    and "xrf_settings xrf = Some (settings_normalize E arch XRFSettings_init)"
  using assms
  by (auto simp: build_xrf_def bindE_def Let_def split: sum.splits prod.splits)

subsection \<open>Layers and elements of one entry\<close>



subsection \<open>One result per measurement entry\<close>

text \<open>
  C1. The claim is that a raw mapping with \<open>N\<close> measurement entries always yields \<open>N\<close> results,
  one per entry and in iteration order. For well-formed entries, which carry a \<^verbatim>\<open>'layers'\<close>
  mapping, this is lemma \<open>build_xrf_results\<close>. For an entry without the key the default of
  \<^verbatim>\<open>data.get('layers', [])\<close> is a list, \<^verbatim>\<open>.items()\<close> raises \<^verbatim>\<open>AttributeError\<close> on it and the
  call ends without any result: here a mapping with two entries, the second without
  \<^verbatim>\<open>'layers'\<close>.
\<close>

theorem build_xrf_missing_layers_raises:
  "build_xrf E
     (PDict [(''m1'', PDict [(''application'', PStr ''a''), (''layers'', PDict [])]),
             (''m2'', PDict [(''application'', PStr ''b'')])]) arch
   = Inl AttributeError"
  by (simp add: build_xrf_def build_layers_def set_quantity_def Let_def)

subsection \<open>Sample references\<close>

text \<open>
  C2. The claim is that the emitted sample references are as many as the distinct non-empty
  sample names, that a repeated name produces exactly one reference, and that no two emitted
  references have equal identifiers. The code tests \<^verbatim>\<open>sample not in list_of_samples\<close> with
  the sample object it has just constructed. Sections are compared by identity, so the test
  never finds the new object in the list and every entry appends a reference. Scenario C,
  two entries both named \<^verbatim>\<open>S1\<close>, has one distinct non-empty sample name and gives two
  references with the identifier \<^verbatim>\<open>S1\<close>; with an unnamed entry between them the references
  are \<^verbatim>\<open>S1\<close>, unset, \<^verbatim>\<open>S1\<close>.
\<close>

theorem build_xrf_repeated_sample_name:
  "build_xrf plain_env
     (PDict [(''m1'', PDict [(''sample_name'', PStr ''S1''), (''layers'', PDict [])]),
             (''m2'', PDict [(''sample_name'', PStr ''S1''), (''layers'', PDict [])])])
     \<lparr>EntryArchive.results = None\<rparr>
   = Inr \<lparr>data_file = None, xrf_settings = Some XRFSettings_init,
          results = [\<lparr>XRFResult.name = PNone, date = PNone, layer = []\<rparr>,
                     \<lparr>XRFResult.name = PNone, date = PNone, layer = []\<rparr>],
          samples = [\<lparr>lab_id = PStr ''S1'', reference = PNone, oid = 0\<rparr>,
                     \<lparr>lab_id = PStr ''S1'', reference = PNone, oid = 1\<rparr>]\<rparr>
   \<and> distinct_nonempty_sample_names
       [PDict [(''sample_name'', PStr ''S1''), (''layers'', PDict [])],
        PDict [(''sample_name'', PStr ''S1''), (''layers'', PDict [])]]
     = [PStr ''S1'']
   \<and> build_xrf plain_env
     (PDict [(''m1'', PDict [(''sample_name'', PStr ''S1''), (''layers'', PDict [])]),
             (''m2'', PDict [(''layers'', PDict [])]),
             (''m3'', PDict [(''sample_name'', PStr ''S1''), (''layers'', PDict [])])])
     \<lparr>EntryArchive.results = None\<rparr>
   = Inr \<lparr>data_file = None, xrf_settings = Some XRFSettings_init,
          results = [\<lparr>XRFResult.name = PNone, date = PNone, layer = []\<rparr>,
                     \<lparr>XRFResult.name = PNone, date = PNone, layer = []\<rparr>,
                     \<lparr>XRFResult.name = PNone, date = PNone, layer = []\<rparr>],
          samples = [\<lparr>lab_id = PStr ''S1'', reference = PNone, oid = 0\<rparr>,
                     \<lparr>lab_id = PNone, reference = PNone, oid = 1\<rparr>,
                     \<lparr>lab_id = PStr ''S1'', reference = PNone, oid = 2\<rparr>]\<rparr>"
  by (simp add: build_xrf_def build_layers_def set_quantity_def sample_in_def
      CompositeSystemReference_eq_def plain_env_def distinct_nonempty_sample_names_def
      first_occurrences_def sample_names_def field_def)

subsection \<open>Missing fields\<close>

text \<open>
  C3. The claim is that no missing field makes \<^verbatim>\<open>write_xrf_data\<close> raise, a missing
  \<^verbatim>\<open>'layers'\<close> key included. For every other field this holds (in lemmas
  \<open>layers_loop_well_formed\<close> and \<open>measurements_loop_results\<close> a well-formed entry may lack
  every key but \<^verbatim>\<open>'layers'\<close>). For \<^verbatim>\<open>'layers'\<close> it does not: the default of
  \<^verbatim>\<open>data.get('layers', [])\<close> is the list \<^verbatim>\<open>[]\<close>, not a dictionary as for \<^verbatim>\<open>'elements'\<close>, and
  \<^verbatim>\<open>[].items()\<close> raises \<^verbatim>\<open>AttributeError\<close>. Here the entry of Scenario B without its
  \<^verbatim>\<open>'layers'\<close> key: the call raises and leaves the section as it was.
\<close>

theorem write_xrf_data_missing_layers_raises:
  "write_xrf_data E
     (PDict [(''meas1'', PDict [(''application'', PStr ''coating check''),
                                (''sample_name'', PStr ''S1'')])]) arch slf
   = (Some AttributeError, slf)"
  by (simp add: write_xrf_data_def build_xrf_def build_layers_def set_quantity_def)

subsection \<open>Settings\<close>

text \<open>
  C8. The claim is that every run of \<^verbatim>\<open>write_xrf_data\<close> constructs one settings entity, empty
  and independent of the raw dictionary. Whenever the builder returns, this is lemma
  \<open>build_xrf_derived\<close>. On an entry without \<^verbatim>\<open>'layers'\<close> the call raises in line 281, before
  the settings are constructed in line 322, and a section without settings still has none
  after the call.
\<close>

theorem write_xrf_data_no_settings_on_missing_layers:
  "fst (write_xrf_data E (PDict [(''m1'', PDict [(''sample_name'', PStr ''S1'')])]) arch
          \<lparr>data_file = Some ''run.txt'', xrf_settings = None, results = [], samples = []\<rparr>)
     = Some AttributeError
   \<and> xrf_settings
       (snd (write_xrf_data E (PDict [(''m1'', PDict [(''sample_name'', PStr ''S1'')])]) arch
          \<lparr>data_file = Some ''run.txt'', xrf_settings = None, results = [], samples = []\<rparr>))
     = None"
  by (simp add: write_xrf_data_def build_xrf_def build_layers_def set_quantity_def)

subsection \<open>The merge\<close>

text \<open>
  C4. The merge at the end of \<^verbatim>\<open>write_xrf_data\<close>, field by field: a field that is set in the
  current section keeps its value whatever the derived section holds; a field that is unset
  or empty in the current section takes the value of the derived section. The lists
  \<^verbatim>\<open>results\<close> and \<^verbatim>\<open>samples\<close> are taken as a whole from one of the two sections, never
  combined. When the builder returns the derived section, \<^verbatim>\<open>write_xrf_data\<close> returns this
  merge.
\<close>

theorem merge_sections_field_rule:
  "(data_file cur = Some v1 \<longrightarrow> data_file (merge_sections cur derived) = Some v1)
   \<and> (data_file cur = None \<longrightarrow> data_file (merge_sections cur derived) = data_file derived)
   \<and> (xrf_settings cur = Some v2 \<longrightarrow> xrf_settings (merge_sections cur derived) = Some v2)
   \<and> (xrf_settings cur = None \<longrightarrow>
        xrf_settings (merge_sections cur derived) = xrf_settings derived)
   \<and> (ELNXRayFluorescence.results cur \<noteq> [] \<longrightarrow>
        ELNXRayFluorescence.results (merge_sections cur derived) = ELNXRayFluorescence.results cur)
   \<and> (ELNXRayFluorescence.results cur = [] \<longrightarrow>
        ELNXRayFluorescence.results (merge_sections cur derived)
          = ELNXRayFluorescence.results derived)
   \<and> (samples cur \<noteq> [] \<longrightarrow> samples (merge_sections cur derived) = samples cur)
   \<and> (samples cur = [] \<longrightarrow> samples (merge_sections cur derived) = samples derived)
   \<and> (build_xrf E xrf_dict arch = Inr derived \<longrightarrow>
        write_xrf_data E xrf_dict arch cur = (None, merge_sections cur derived))"
  by (simp add: merge_sections_def write_xrf_data_def)

text \<open>
  One built section merged into a section with every field set, which stays as it is, and
  into a section with no field set, which takes every value of the built one.
\<close>

theorem merge_sections_field_rule_witness:
  "build_xrf plain_env
     (PDict [(''meas1'', PDict [(''application'', PStr ''a''), (''sample_name'', PStr ''S1''),
                                (''layers'', PDict [])])])
     \<lparr>EntryArchive.results = None\<rparr>
   = Inr \<lparr>data_file = None, xrf_settings = Some XRFSettings_init,
          results = [\<lparr>XRFResult.name = PStr ''a'', date = PNone, layer = []\<rparr>],
          samples = [\<lparr>lab_id = PStr ''S1'', reference = PNone, oid = 0\<rparr>]\<rparr>
   \<and> write_xrf_data plain_env
       (PDict [(''meas1'', PDict [(''application'', PStr ''a''), (''sample_name'', PStr ''S1''),
                                  (''layers'', PDict [])])])
       \<lparr>EntryArchive.results = None\<rparr>
       \<lparr>data_file = Some ''run.txt'',
        xrf_settings = Some (XRFSettings_init\<lparr>element_line := PStr ''Ka1''\<rparr>),
        results = [\<lparr>XRFResult.name = PStr ''manual'', date = PNone, layer = []\<rparr>],
        samples = [\<lparr>lab_id = PStr ''S0'', reference = PNone, oid = 0\<rparr>]\<rparr>
     = (None,
        \<lparr>data_file = Some ''run.txt'',
         xrf_settings = Some (XRFSettings_init\<lparr>element_line := PStr ''Ka1''\<rparr>),
         results = [\<lparr>XRFResult.name = PStr ''manual'', date = PNone, layer = []\<rparr>],
         samples = [\<lparr>lab_id = PStr ''S0'', reference = PNone, oid = 0\<rparr>]\<rparr>)
   \<and> write_xrf_data plain_env
       (PDict [(''meas1'', PDict [(''application'', PStr ''a''), (''sample_name'', PStr ''S1''),
                                  (''layers'', PDict [])])])
       \<lparr>EntryArchive.results = None\<rparr>
       \<lparr>data_file = None, xrf_settings = None, results = [], samples = []\<rparr>
     = (None,
        \<lparr>data_file = None, xrf_settings = Some XRFSettings_init,
         results = [\<lparr>XRFResult.name = PStr ''a'', date = PNone, layer = []\<rparr>],
         samples = [\<lparr>lab_id = PStr ''S1'', reference = PNone, oid = 0\<rparr>]\<rparr>)"
proof -
  let ?input = "PDict [(''meas1'', PDict [(''application'', PStr ''a''),
                  (''sample_name'', PStr ''S1''), (''layers'', PDict [])])]"
  let ?arch = "\<lparr>EntryArchive.results = None\<rparr>"
  let ?derived = "\<lparr>data_file = None, xrf_settings = Some XRFSettings_init,
          results = [\<lparr>XRFResult.name = PStr ''a'', date = PNone, layer = []\<rparr>],
          samples = [\<lparr>lab_id = PStr ''S1'', reference = PNone, oid = 0\<rparr>]\<rparr>"
  let ?set = "\<lparr>data_file = Some ''run.txt'',
        xrf_settings = Some (XRFSettings_init\<lparr>element_line := PStr ''Ka1''\<rparr>),
        results = [\<lparr>XRFResult.name = PStr ''manual'', date = PNone, layer = []\<rparr>],
        samples = [\<lparr>lab_id = PStr ''S0'', reference = PNone, oid = 0\<rparr>]\<rparr>"
  let ?unset = "\<lparr>data_file = None, xrf_settings = None, results = [], samples = []\<rparr>"
  have built: "build_xrf plain_env ?input ?arch = Inr ?derived"
    by (simp add: build_xrf_def build_layers_def set_quantity_def sample_in_def plain_env_def)
  have kept:
    "data_file (merge_sections ?set ?derived) = data_file ?set"
    "xrf_settings (merge_sections ?set ?derived) = xrf_settings ?set"
    "ELNXRayFluorescence.results (merge_sections ?set ?derived) = ELNXRayFluorescence.results ?set"
    "samples (merge_sections ?set ?derived) = samples ?set"
    using merge_sections_field_rule
      [where cur = ?set and derived = ?derived and ?v1.0 = "''run.txt''"
         and ?v2.0 = "XRFSettings_init\<lparr>element_line := PStr ''Ka1''\<rparr>"]
    by simp_all
  have filled:
    "data_file (merge_sections ?unset ?derived) = data_file ?derived"
    "xrf_settings (merge_sections ?unset ?derived) = xrf_settings ?derived"
    "ELNXRayFluorescence.results (merge_sections ?unset ?derived)
       = ELNXRayFluorescence.results ?derived"
    "samples (merge_sections ?unset ?derived) = samples ?derived"
    using merge_sections_field_rule [where cur = ?unset and derived = ?derived]
    by simp_all
  have m1: "merge_sections ?set ?derived = ?set"
    using kept by (cases "merge_sections ?set ?derived") simp
  have m2: "merge_sections ?unset ?derived = ?derived"
    using filled by (cases "merge_sections ?unset ?derived") simp
  have w1: "write_xrf_data plain_env ?input ?arch ?set = (None, merge_sections ?set ?derived)"
    using built
      merge_sections_field_rule
        [where cur = ?set and derived = ?derived and E = plain_env and xrf_dict = ?input
           and arch = ?arch]
    by blast
  have w2: "write_xrf_data plain_env ?input ?arch ?unset = (None, merge_sections ?unset ?derived)"
    using built
      merge_sections_field_rule
        [where cur = ?unset and derived = ?derived and E = plain_env and xrf_dict = ?input
           and arch = ?arch]
    by blast
  show ?thesis
    using built w1 w2 m1 m2 by simp
qed

subsection \<open>The file reference\<close>

text \<open>
  C10. A call of \<^verbatim>\<open>write_xrf_data\<close> on a section whose \<^verbatim>\<open>data_file\<close> is set leaves
  \<^verbatim>\<open>data_file\<close> as it is, whether the call returns or raises; the section built from the raw
  dictionary never has a \<^verbatim>\<open>data_file\<close>.
\<close>

theorem write_xrf_data_keeps_data_file:
  assumes "data_file slf = Some f"
  shows "data_file (snd (write_xrf_data E xrf_dict arch slf)) = Some f
       \<and> (\<forall>xrf. build_xrf E xrf_dict arch = Inr xrf \<longrightarrow> data_file xrf = None)"
proof -
  have "data_file (snd (write_xrf_data E xrf_dict arch slf)) = Some f"
    using assms by (simp add: write_xrf_data_def merge_sections_def split: sum.splits)
  then show ?thesis
    by (simp add: build_xrf_derived(1))
qed

text \<open>The measurement of Scenario B written into a section that points to \<^verbatim>\<open>run.txt\<close>.\<close>

theorem write_xrf_data_keeps_data_file_witness:
  "data_file \<lparr>data_file = Some ''run.txt'', xrf_settings = None, results = [], samples = []\<rparr>
     = Some ''run.txt''
   \<and> data_file (snd (write_xrf_data plain_env (PDict [(''meas1'', PDict scenario_B_entry)])
        \<lparr>EntryArchive.results = None\<rparr>
        \<lparr>data_file = Some ''run.txt'', xrf_settings = None, results = [], samples = []\<rparr>))
     = Some ''run.txt''
   \<and> fst (write_xrf_data plain_env (PDict [(''meas1'', PDict scenario_B_entry)])
        \<lparr>EntryArchive.results = None\<rparr>
        \<lparr>data_file = Some ''run.txt'', xrf_settings = None, results = [], samples = []\<rparr>)
     = None
   \<and> (\<exists>xrf. build_xrf plain_env (PDict [(''meas1'', PDict scenario_B_entry)])
               \<lparr>EntryArchive.results = None\<rparr> = Inr xrf
          \<and> data_file xrf = None)"
proof -
  have h: "data_file \<lparr>data_file = Some ''run.txt'', xrf_settings = None, results = [], samples = []\<rparr>
     = Some ''run.txt''"
    by simp
  have r: "fst (write_xrf_data plain_env (PDict [(''meas1'', PDict scenario_B_entry)])
        \<lparr>EntryArchive.results = None\<rparr>
        \<lparr>data_file = Some ''run.txt'', xrf_settings = None, results = [], samples = []\<rparr>)
     = None"
    by (simp add: write_xrf_data_def build_xrf_def build_layers_def scenario_B_entry_def
        make_element_def set_quantity_def sample_in_def plain_env_def)
  from r obtain xrf where
    b: "build_xrf plain_env (PDict [(''meas1'', PDict scenario_B_entry)])
          \<lparr>EntryArchive.results = None\<rparr> = Inr xrf"
    by (cases "build_xrf plain_env (PDict [(''meas1'', PDict scenario_B_entry)])
          \<lparr>EntryArchive.results = None\<rparr>") (simp_all add: write_xrf_data_def)
  note t = write_xrf_data_keeps_data_file [OF h, of plain_env
        "PDict [(''meas1'', PDict scenario_B_entry)]" "\<lparr>EntryArchive.results = None\<rparr>"]
  from t b have "data_file xrf = None"
    by blast
  with b h r t show ?thesis
    by blast
qed

subsection \<open>The normalize entry point\<close>

text \<open>A warning touches nothing but the logger, and a logger that is \<^verbatim>\<open>None\<close> not even that.\<close>

lemma warn_frame:
  "self (warn msg st) = self st" "archive (warn msg st) = archive st"
  by (simp_all add: warn_def split: option.splits)

lemma warn_logger:
  "logger (warn msg st) = (case logger st of None \<Rightarrow> None | Some msgs \<Rightarrow> Some (msgs @ [msg]))"
  by (simp add: warn_def split: option.splits)

text \<open>
  C6, as amended. Let \<^verbatim>\<open>data_file\<close> be set. If no reader resolves for the file name, or the
  resolved reader returns a falsy value, then \<^verbatim>\<open>normalize\<close> raises nothing and returns the
  state that the base class normalization makes of the state after the warning. The warning
  leaves the section and the archive as they are, so no result is attached; it is appended
  to the messages of the logger when a logger is given, and nothing is emitted when the
  logger is \<^verbatim>\<open>None\<close>.
\<close>

theorem normalize_unparsed:
  assumes "data_file (self st) = Some f"
  shows "(get_read_function (self st) = Inr None \<longrightarrow>
            normalize E st = (None, XRayFluorescence_normalize E (warn (no_reader_message f) st)))
       \<and> (get_read_function (self st) = Inr (Some r) \<and> raw_file E f = Inr file_name \<and>
          call_reader E r file_name = Inr xrf_dict \<and> \<not> py_truthy xrf_dict \<longrightarrow>
            normalize E st = (None, XRayFluorescence_normalize E (warn (no_data_message f) st)))
       \<and> self (warn msg st) = self st
       \<and> archive (warn msg st) = archive st
       \<and> (logger st = Some msgs \<longrightarrow> logger (warn msg st) = Some (msgs @ [msg]))
       \<and> (logger st = None \<longrightarrow> warn msg st = st)"
  using assms by (simp add: normalize_def warn_frame warn_logger)

text \<open>
  Scenarios D and E with a logger: \<^verbatim>\<open>run.csv\<close> resolves no reader, and for \<^verbatim>\<open>run.txt\<close> the
  reader returns an empty dictionary.
\<close>

theorem normalize_unparsed_witness:
  "normalize plain_env
     \<lparr>self = \<lparr>data_file = Some ''run.csv'', xrf_settings = None, results = [], samples = []\<rparr>,
      archive = \<lparr>EntryArchive.results = None\<rparr>, logger = Some []\<rparr>
   = (None,
      \<lparr>self = \<lparr>data_file = Some ''run.csv'', xrf_settings = None, results = [], samples = []\<rparr>,
       archive = \<lparr>EntryArchive.results = Some \<lparr>properties = Some Properties\<rparr>\<rparr>,
       logger = Some [no_reader_message ''run.csv'']\<rparr>)
   \<and> normalize plain_env
     \<lparr>self = \<lparr>data_file = Some ''run.txt'', xrf_settings = None, results = [], samples = []\<rparr>,
      archive = \<lparr>EntryArchive.results = None\<rparr>, logger = Some []\<rparr>
   = (None,
      \<lparr>self = \<lparr>data_file = Some ''run.txt'', xrf_settings = None, results = [], samples = []\<rparr>,
       archive = \<lparr>EntryArchive.results = Some \<lparr>properties = Some Properties\<rparr>\<rparr>,
       logger = Some [no_data_message ''run.txt'']\<rparr>)
   \<and> warn (no_reader_message ''run.csv'')
       \<lparr>self = \<lparr>data_file = Some ''run.csv'', xrf_settings = None, results = [], samples = []\<rparr>,
        archive = \<lparr>EntryArchive.results = None\<rparr>, logger = None\<rparr>
     = \<lparr>self = \<lparr>data_file = Some ''run.csv'', xrf_settings = None, results = [], samples = []\<rparr>,
        archive = \<lparr>EntryArchive.results = None\<rparr>, logger = None\<rparr>"
proof -
  let ?csv = "\<lparr>self = \<lparr>data_file = Some ''run.csv'', xrf_settings = None, results = [], samples = []\<rparr>,
      archive = \<lparr>EntryArchive.results = None\<rparr>, logger = Some []\<rparr>"
  let ?txt = "\<lparr>self = \<lparr>data_file = Some ''run.txt'', xrf_settings = None, results = [], samples = []\<rparr>,
      archive = \<lparr>EntryArchive.results = None\<rparr>, logger = Some []\<rparr>"
  have f1: "data_file (self ?csv) = Some ''run.csv''" and f2: "data_file (self ?txt) = Some ''run.txt''"
    by simp_all
  have g1: "get_read_function (self ?csv) = Inr None"
    by (simp add: get_read_function_def endswith_def)
  have g2: "get_read_function (self ?txt) = Inr (Some Read_xrf_txt)
      \<and> raw_file plain_env ''run.txt'' = Inr ''run.txt''
      \<and> call_reader plain_env Read_xrf_txt ''run.txt'' = Inr (PDict [])
      \<and> \<not> py_truthy (PDict [])"
    by (simp add: get_read_function_def endswith_def plain_env_def call_reader_def)
  have w1: "warn (no_reader_message ''run.csv'') ?csv = ?csv\<lparr>logger := Some [no_reader_message ''run.csv'']\<rparr>"
    using normalize_unparsed [OF f1, where msg = "no_reader_message ''run.csv''" and msgs = "[]"]
    by (simp add: warn_def)
  have n1: "normalize plain_env ?csv
      = (None, XRayFluorescence_normalize plain_env (warn (no_reader_message ''run.csv'') ?csv))"
    using g1 normalize_unparsed [OF f1, where E = plain_env] by blast
  have n2: "normalize plain_env ?txt
      = (None, XRayFluorescence_normalize plain_env (warn (no_data_message ''run.txt'') ?txt))"
    using g2 normalize_unparsed [OF f2, where E = plain_env and r = Read_xrf_txt
        and file_name = "''run.txt''" and xrf_dict = "PDict []"] by blast
  have b: "measurement_normalize plain_env = (\<lambda>st. st)"
    by (simp add: plain_env_def)
  let ?quiet = "\<lparr>self = \<lparr>data_file = Some ''run.csv'', xrf_settings = None, results = [], samples = []\<rparr>,
      archive = \<lparr>EntryArchive.results = None\<rparr>, logger = None\<rparr>"
  have f3: "data_file (self ?quiet) = Some ''run.csv''"
    by simp
  have q: "warn (no_reader_message ''run.csv'') ?quiet = ?quiet"
    using normalize_unparsed [OF f3, where msg = "no_reader_message ''run.csv''"]
    by simp
  have "normalize plain_env ?csv
      = (None, ?csv\<lparr>archive := \<lparr>EntryArchive.results = Some \<lparr>properties = Some Properties\<rparr>\<rparr>,
                     logger := Some [no_reader_message ''run.csv'']\<rparr>)"
    unfolding n1 by (simp add: w1 XRayFluorescence_normalize_def b)
  moreover have "normalize plain_env ?txt
      = (None, ?txt\<lparr>archive := \<lparr>EntryArchive.results = Some \<lparr>properties = Some Properties\<rparr>\<rparr>,
                     logger := Some [no_data_message ''run.txt'']\<rparr>)"
    unfolding n2 by (simp add: warn_def XRayFluorescence_normalize_def b)
  ultimately show ?thesis
    using q by simp
qed

text \<open>
  In the original wording a warning is emitted in every such call. With the logger \<^verbatim>\<open>None\<close>
  and the file \<^verbatim>\<open>run.csv\<close> the call returns, the base class normalization has run, and no
  warning was emitted anywhere.
\<close>

theorem normalize_unparsed_counterexample:
  "normalize plain_env
     \<lparr>self = \<lparr>data_file = Some ''run.csv'', xrf_settings = None, results = [], samples = []\<rparr>,
      archive = \<lparr>EntryArchive.results = None\<rparr>, logger = None\<rparr>
   = (None,
      \<lparr>self = \<lparr>data_file = Some ''run.csv'', xrf_settings = None, results = [], samples = []\<rparr>,
       archive = \<lparr>EntryArchive.results = Some \<lparr>properties = Some Properties\<rparr>\<rparr>,
       logger = None\<rparr>)"
  by (simp add: normalize_def get_read_function_def endswith_def warn_def
      XRayFluorescence_normalize_def plain_env_def)

text \<open>
  C9. Let \<^verbatim>\<open>data_file\<close> be set, a reader resolve for it and the file open. If the reader raises,
  \<^verbatim>\<open>normalize\<close> raises the same exception and the state is the one it was called with: no
  result is attached and the base class normalization has not run.
\<close>

theorem normalize_reader_exception:
  assumes "data_file (self st) = Some f"
    and "get_read_function (self st) = Inr (Some r)"
    and "raw_file E f = Inr file_name"
    and "call_reader E r file_name = Inl e"
  shows "normalize E st = (Some e, st)"
  using assms by (simp add: normalize_def)

text \<open>
  A reader that raises on \<^verbatim>\<open>run.txt\<close>: the archive still has no results section, which the
  base class normalization would have created.
\<close>

theorem normalize_reader_exception_witness:
  "data_file (self \<lparr>self = \<lparr>data_file = Some ''run.txt'', xrf_settings = None, results = [], samples = []\<rparr>,
      archive = \<lparr>EntryArchive.results = None\<rparr>, logger = Some []\<rparr>) = Some ''run.txt''
   \<and> get_read_function (self \<lparr>self = \<lparr>data_file = Some ''run.txt'', xrf_settings = None, results = [], samples = []\<rparr>,
      archive = \<lparr>EntryArchive.results = None\<rparr>, logger = Some []\<rparr>) = Inr (Some Read_xrf_txt)
   \<and> raw_file raising_env ''run.txt'' = Inr ''run.txt''
   \<and> call_reader raising_env Read_xrf_txt ''run.txt'' = Inl (Raised ''unreadable'')
   \<and> normalize raising_env
      \<lparr>self = \<lparr>data_file = Some ''run.txt'', xrf_settings = None, results = [], samples = []\<rparr>,
       archive = \<lparr>EntryArchive.results = None\<rparr>, logger = Some []\<rparr>
    = (Some (Raised ''unreadable''),
       \<lparr>self = \<lparr>data_file = Some ''run.txt'', xrf_settings = None, results = [], samples = []\<rparr>,
        archive = \<lparr>EntryArchive.results = None\<rparr>, logger = Some []\<rparr>)"
proof -
  let ?st = "\<lparr>self = \<lparr>data_file = Some ''run.txt'', xrf_settings = None, results = [], samples = []\<rparr>,
      archive = \<lparr>EntryArchive.results = None\<rparr>, logger = Some []\<rparr>"
  have h1: "data_file (self ?st) = Some ''run.txt''"
    by simp
  have h2: "get_read_function (self ?st) = Inr (Some Read_xrf_txt)"
    by (simp add: get_read_function_def endswith_def)
  have h3: "raw_file raising_env ''run.txt'' = Inr ''run.txt''"
    by (simp add: raising_env_def plain_env_def)
  have h4: "call_reader raising_env Read_xrf_txt ''run.txt'' = Inl (Raised ''unreadable'')"
    by (simp add: raising_env_def call_reader_def)
  show ?thesis
    using h1 h2 h3 h4 normalize_reader_exception [OF h1 h2 h3 h4] by simp
qed

end
